theory Spec2Isabelle
  imports Main
begin

section \<open>Python strings\<close>

text \<open>
  A Python \<open>str\<close> is a sequence of Unicode code points, so a string is modelled as a
  list of code points (natural numbers). \<open>U ''abc''\<close> writes an ASCII literal;
  other literals are written as their code points.
\<close>

type_synonym ustr = "nat list"

abbreviation (input) U :: "string \<Rightarrow> ustr" where
  "U s \<equiv> map (of_char :: char \<Rightarrow> nat) s"

text \<open>\<open>str.lower()\<close> on the ASCII letters; other code points are kept as they are.\<close>

definition lower_cp :: "nat \<Rightarrow> nat" where
  "lower_cp c = (if 65 \<le> c \<and> c \<le> 90 then c + 32 else c)"

definition lower :: "ustr \<Rightarrow> ustr" where
  "lower s = map lower_cp s"

text \<open>Truthiness of an optional string: \<open>None\<close> and \<open>""\<close> are falsy.\<close>

fun truthy :: "ustr option \<Rightarrow> bool" where
  "truthy None = False"
| "truthy (Some s) = (s \<noteq> [])"

section \<open>llm\_service.py: the class LLMService\<close>

datatype client = Anthropic ustr | AzureOpenAI ustr ustr ustr

datatype error = ValueError | KeyError | AttributeError | ApiError

text \<open>A call either returns a value or raises.\<close>

datatype 'a result = Return 'a | Raise error

text \<open>One constructor for each logging statement of the class.\<close>

datatype log_entry =
    ErrAnthropicKeyUnset
  | InfoClaudeInitialized
  | ErrAzureIncomplete
  | InfoAzureInitialized
  | ErrUnsupportedProvider ustr
  | InfoSwitched ustr

record LLMService =
  provider :: ustr
  anthropic_api_key :: "ustr option"
  azure_openai_api_key :: "ustr option"
  azure_openai_endpoint :: "ustr option"
  azure_openai_deployment :: ustr
  azure_openai_api_version :: ustr
  claude_client :: "client option"
  azure_openai_client :: "client option"

text \<open>
  \<open>_initialize_client\<close>: the object after the call, what the call did (returned or
  raised) and the log entries it wrote. The object is mutated in place, so the state is
  returned on the raising paths as well.
\<close>

definition initialize_client :: "LLMService \<Rightarrow> unit result \<times> LLMService \<times> log_entry list" where
  "initialize_client self =
     (if provider self = U ''claude'' then
        (if \<not> truthy (anthropic_api_key self) then
           (Raise ValueError, self, [ErrAnthropicKeyUnset])
         else
           (Return (),
            self\<lparr>claude_client := Some (Anthropic (the (anthropic_api_key self)))\<rparr>,
            [InfoClaudeInitialized]))
      else if provider self = U ''azure_openai'' then
        (if \<not> truthy (azure_openai_api_key self) \<or> \<not> truthy (azure_openai_endpoint self) then
           (Raise ValueError, self, [ErrAzureIncomplete])
         else
           (Return (),
            self\<lparr>azure_openai_client :=
                   Some (AzureOpenAI (the (azure_openai_api_key self))
                                     (azure_openai_api_version self)
                                     (the (azure_openai_endpoint self)))\<rparr>,
            [InfoAzureInitialized]))
      else
        (Raise ValueError, self, [ErrUnsupportedProvider (provider self)]))"

text \<open>\<open>os.environ.get(name, default)\<close>\<close>

definition environ_get :: "(ustr \<rightharpoonup> ustr) \<Rightarrow> ustr \<Rightarrow> ustr \<Rightarrow> ustr" where
  "environ_get env name dflt = (case env name of None \<Rightarrow> dflt | Some v \<Rightarrow> v)"

text \<open>
  \<open>__init__\<close>: the constructor gives an object only when \<open>_initialize_client\<close> returns.
\<close>

definition init :: "(ustr \<rightharpoonup> ustr) \<Rightarrow> ustr \<Rightarrow> LLMService result \<times> log_entry list" where
  "init env prov =
     (let self = \<lparr>provider = lower prov,
                  anthropic_api_key = env (U ''ANTHROPIC_API_KEY''),
                  azure_openai_api_key = env (U ''AZURE_OPENAI_API_KEY''),
                  azure_openai_endpoint = env (U ''AZURE_OPENAI_ENDPOINT''),
                  azure_openai_deployment =
                    environ_get env (U ''AZURE_OPENAI_DEPLOYMENT'') (U ''gpt-4''),
                  azure_openai_api_version =
                    environ_get env (U ''AZURE_OPENAI_API_VERSION'') (U ''2023-12-01-preview''),
                  claude_client = None,
                  azure_openai_client = None\<rparr>
      in case initialize_client self of
           (Return u, self', lg) \<Rightarrow> (Return self', lg)
         | (Raise e, self', lg) \<Rightarrow> (Raise e, lg))"

definition switch_provider :: "LLMService \<Rightarrow> ustr \<Rightarrow> ustr result \<times> LLMService \<times> log_entry list" where
  "switch_provider self prov =
     (if lower prov \<notin> set [U ''claude'', U ''azure_openai''] then
        (Raise ValueError, self, [ErrUnsupportedProvider prov])
      else if lower prov \<noteq> provider self then
        (let self1 = self\<lparr>provider := lower prov\<rparr> in
         case initialize_client self1 of
           (Return u, self2, lg) \<Rightarrow> (Return (provider self2), self2, lg @ [InfoSwitched (provider self2)])
         | (Raise e, self2, lg) \<Rightarrow> (Raise e, self2, lg))
      else
        (Return (provider self), self, []))"

text \<open>
  \<open>generate_summary\<close> and \<open>extract_keywords\<close> call the Claude client when the
  provider is \<open>"claude"\<close> and the Azure OpenAI client otherwise; the client they
  dereference is the one that has to be there.
\<close>

definition active_client :: "LLMService \<Rightarrow> client option" where
  "active_client self =
     (if provider self = U ''claude'' then claude_client self else azure_openai_client self)"

definition usable :: "LLMService \<Rightarrow> bool" where
  "usable self = (active_client self \<noteq> None)"

text \<open>
  The objects a program can hold: built by the constructor, then changed by calls of
  \<open>switch_provider\<close> (a call that raises leaves the mutated object behind).
\<close>

inductive reachable :: "LLMService \<Rightarrow> bool" where
  constructed: "init env prov = (Return self, lg) \<Longrightarrow> reachable self"
| switched: "reachable self \<Longrightarrow> switch_provider self prov = (r, self', lg) \<Longrightarrow> reachable self'"

section \<open>String operations used by slack\_bot\_summarizer.py\<close>

text \<open>The code points for which \<open>str.isspace()\<close> holds; \<open>str.strip()\<close> removes them.\<close>

definition isspace :: "nat \<Rightarrow> bool" where
  "isspace c =
     ((9 \<le> c \<and> c \<le> 13) \<or> (28 \<le> c \<and> c \<le> 32) \<or> c = 133 \<or> c = 160 \<or> c = 5760
      \<or> (8192 \<le> c \<and> c \<le> 8202) \<or> c = 8232 \<or> c = 8233 \<or> c = 8239 \<or> c = 8287
      \<or> c = 12288)"

definition strip :: "ustr \<Rightarrow> ustr" where
  "strip s = rev (dropWhile isspace (rev (dropWhile isspace s)))"

text \<open>\<open>s.strip(chars)\<close>\<close>

definition strip_chars :: "ustr \<Rightarrow> ustr \<Rightarrow> ustr" where
  "strip_chars s chars =
     rev (dropWhile (\<lambda>c. c \<in> set chars) (rev (dropWhile (\<lambda>c. c \<in> set chars) s)))"

definition startswith :: "ustr \<Rightarrow> ustr \<Rightarrow> bool" where
  "startswith s p = (take (length p) s = p)"

text \<open>\<open>s.split("\n")\<close>: the pieces between line feeds, never an empty list.\<close>

fun split_nl :: "ustr \<Rightarrow> ustr list" where
  "split_nl [] = [[]]"
| "split_nl (c # cs) =
     (if c = 10 then [] # split_nl cs
      else (case split_nl cs of [] \<Rightarrow> [[c]] | l # ls \<Rightarrow> (c # l) # ls))"

text \<open>\<open>sep.join(xs)\<close>\<close>

fun join :: "ustr \<Rightarrow> ustr list \<Rightarrow> ustr" where
  "join sep [] = []"
| "join sep [x] = x"
| "join sep (x # y # ys) = x @ sep @ join sep (y # ys)"

text \<open>
  The regular expression \<open><@([A-Z0-9]+)>\<close> matched at the start of a text: the
  captured id and the text after the match. The class \<open>[A-Z0-9]\<close> does not hold
  \<open>>\<close>, so the greedy run of id characters is the only candidate.
\<close>

definition is_id_char :: "nat \<Rightarrow> bool" where
  "is_id_char c = ((65 \<le> c \<and> c \<le> 90) \<or> (48 \<le> c \<and> c \<le> 57))"

definition match_mention :: "ustr \<Rightarrow> (ustr \<times> ustr) option" where
  "match_mention s =
     (if startswith s (U ''<@'') then
        (let t = drop 2 s; uid = takeWhile is_id_char t; r = dropWhile is_id_char t
         in if uid \<noteq> [] \<and> startswith r (U ''>'') then Some (uid, drop 1 r) else None)
      else None)"

lemma match_mention_shorter: "match_mention s = Some (uid, r) \<Longrightarrow> length r < length s"
proof -
  assume a: "match_mention s = Some (uid, r)"
  then have r: "r = drop 1 (dropWhile is_id_char (drop 2 s))"
    by (auto simp: match_mention_def Let_def split: if_splits)
  from a have "startswith s (U ''<@'')"
    by (auto simp: match_mention_def split: if_splits)
  then have "2 \<le> length s"
    by (cases s; cases "tl s") (auto simp: startswith_def)
  moreover have "length (dropWhile is_id_char (drop 2 s)) \<le> length (drop 2 s)"
    by (rule length_dropWhile_le)
  ultimately show ?thesis using r by simp
qed

text \<open>\<open>re.findall(r'<@([A-Z0-9]+)>', text)\<close>: the ids of the matches, left to right.\<close>

function findall_mentions :: "ustr \<Rightarrow> ustr list" where
  "findall_mentions [] = []"
| "findall_mentions (c # cs) =
     (case match_mention (c # cs) of
        Some (uid, r) \<Rightarrow> uid # findall_mentions r
      | None \<Rightarrow> findall_mentions cs)"
  by pat_completeness auto
termination
  by (relation "measure length") (auto dest: match_mention_shorter)

text \<open>\<open>re.sub(r'<@[A-Z0-9]+>', '', text)\<close>: the text without the matches.\<close>

function remove_mentions :: "ustr \<Rightarrow> ustr" where
  "remove_mentions [] = []"
| "remove_mentions (c # cs) =
     (case match_mention (c # cs) of
        Some (uid, r) \<Rightarrow> remove_mentions r
      | None \<Rightarrow> c # remove_mentions cs)"
  by pat_completeness auto
termination
  by (relation "measure length") (auto dest: match_mention_shorter)

text \<open>\<open>s.replace(old, new)\<close>: every occurrence of \<open>old\<close>, left to right, not overlapping.\<close>

function replace_scan :: "ustr \<Rightarrow> ustr \<Rightarrow> ustr \<Rightarrow> ustr" where
  "replace_scan [] old new = []"
| "replace_scan (c # cs) old new =
     (if old \<noteq> [] \<and> startswith (c # cs) old
      then new @ replace_scan (drop (length old) (c # cs)) old new
      else c # replace_scan cs old new)"
  by pat_completeness auto
termination
  by (relation "measure (\<lambda>(s, old, new). length s)") auto

definition replace :: "ustr \<Rightarrow> ustr \<Rightarrow> ustr \<Rightarrow> ustr" where
  "replace s old new =
     (if old = [] then new @ concat (map (\<lambda>c. c # new) s) else replace_scan s old new)"

section \<open>slack\_bot\_summarizer.py: transcript and participants\<close>

text \<open>
  A thread message as the functions read it: \<open>msg.get("user")\<close>, \<open>msg.get("bot_id")\<close>,
  \<open>msg.get("text", "")\<close> and \<open>msg.get("ts", ...)\<close>; \<open>None\<close> is a missing key.
\<close>

record message =
  msg_user :: "ustr option"
  msg_bot_id :: "ustr option"
  msg_text :: "ustr option"
  msg_ts :: "ustr option"

record profile_info =
  email :: "ustr option"

record user_info =
  real_name :: "ustr option"
  profile :: "profile_info option"

text \<open>
  The Slack client, as far as these functions use it: \<open>client.users_info(user=id)["user"]\<close>,
  with \<open>None\<close> when the call or the access raises. The answer for an id is taken to be
  the same during one request.
\<close>

type_synonym slack_client = "ustr \<Rightarrow> user_info option"

text \<open>
  Every call of \<open>client.users_info\<close> is recorded with the place that makes it: the author
  lookup of \<open>format_messages_for_llm\<close> and \<open>extract_participants_with_email\<close>, or the
  mention lookup of \<open>process_mentions\<close>.
\<close>

datatype lookup = AuthorLookup ustr | MentionLookup ustr

fun lookup_id :: "lookup \<Rightarrow> ustr" where
  "lookup_id (AuthorLookup uid) = uid"
| "lookup_id (MentionLookup uid) = uid"

text \<open>The loop of \<open>process_mentions\<close> over the ids that \<open>findall\<close> returned.\<close>

fun process_mentions_loop :: "slack_client \<Rightarrow> ustr \<Rightarrow> ustr list \<Rightarrow> ustr" where
  "process_mentions_loop client txt [] = txt"
| "process_mentions_loop client txt (user_id # rest) =
     (case client user_id of
        None \<Rightarrow> process_mentions_loop client txt rest
      | Some ui \<Rightarrow>
          (case real_name ui of
             None \<Rightarrow> process_mentions_loop client txt rest
           | Some user_name \<Rightarrow>
               process_mentions_loop client
                 (replace txt (U ''<@'' @ user_id @ U ''>'') (U ''@'' @ user_name)) rest))"

text \<open>\<open>process_mentions\<close>: the text, and the lookups made (one for each id found).\<close>

definition process_mentions :: "ustr \<Rightarrow> slack_client \<Rightarrow> ustr \<times> lookup list" where
  "process_mentions txt client =
     (let mentions = findall_mentions txt
      in (process_mentions_loop client txt mentions, map MentionLookup mentions))"

record fmt_state =
  formatted_messages :: "ustr list"
  fmt_user_cache :: "ustr \<rightharpoonup> user_info"
  fmt_lookups :: "lookup list"

text \<open>One iteration of the loop of \<open>format_messages_for_llm\<close>.\<close>

definition fmt_step :: "slack_client \<Rightarrow> fmt_state \<Rightarrow> message \<Rightarrow> fmt_state" where
  "fmt_step client st msg =
     (if \<not> truthy (msg_user msg) \<or> truthy (msg_bot_id msg) then st
      else
        let user_id = the (msg_user msg);
            (ui, st1) =
              (case fmt_user_cache st user_id of
                 Some cached \<Rightarrow> (cached, st)
               | None \<Rightarrow>
                   (case client user_id of
                      Some fetched \<Rightarrow>
                        (fetched,
                         st\<lparr>fmt_user_cache := (fmt_user_cache st)(user_id \<mapsto> fetched),
                            fmt_lookups := fmt_lookups st @ [AuthorLookup user_id]\<rparr>)
                    | None \<Rightarrow>
                        (\<lparr>real_name = Some (U ''User '' @ user_id), profile = None\<rparr>,
                         st\<lparr>fmt_lookups := fmt_lookups st @ [AuthorLookup user_id]\<rparr>)));
            username = (case real_name ui of Some n \<Rightarrow> n | None \<Rightarrow> U ''User '' @ user_id);
            (txt1, ml) =
              process_mentions (case msg_text msg of Some t \<Rightarrow> t | None \<Rightarrow> []) client;
            txt2 = strip (remove_mentions txt1);
            st2 = st1\<lparr>fmt_lookups := fmt_lookups st1 @ ml\<rparr>
        in if txt2 = [] then st2
           else st2\<lparr>formatted_messages := formatted_messages st2 @ [username @ U '': '' @ txt2]\<rparr>)"

definition fmt_init :: fmt_state where
  "fmt_init = \<lparr>formatted_messages = [], fmt_user_cache = Map.empty, fmt_lookups = []\<rparr>"

definition fmt_run :: "slack_client \<Rightarrow> message list \<Rightarrow> fmt_state" where
  "fmt_run client messages = foldl (fmt_step client) fmt_init messages"

definition format_messages_for_llm :: "slack_client \<Rightarrow> message list \<Rightarrow> ustr" where
  "format_messages_for_llm client messages =
     join [10, 10] (formatted_messages (fmt_run client messages))"

record participant =
  p_user_id :: ustr
  p_name :: ustr
  p_email :: ustr

record ext_state =
  participants :: "participant list"
  ext_user_cache :: "ustr \<rightharpoonup> user_info"
  processed_users :: "ustr set"
  ext_lookups :: "lookup list"

text \<open>One iteration of the loop of \<open>extract_participants_with_email\<close>.\<close>

definition ext_step :: "slack_client \<Rightarrow> ext_state \<Rightarrow> message \<Rightarrow> ext_state" where
  "ext_step client st msg =
     (if \<not> truthy (msg_user msg) \<or> truthy (msg_bot_id msg) then st
      else
        let user_id = the (msg_user msg) in
        if user_id \<in> processed_users st then st
        else
          let st0 = st\<lparr>processed_users := insert user_id (processed_users st)\<rparr>;
              (ui, st1) =
                (case ext_user_cache st0 user_id of
                   Some cached \<Rightarrow> (cached, st0)
                 | None \<Rightarrow>
                     (case client user_id of
                        Some fetched \<Rightarrow>
                          (fetched,
                           st0\<lparr>ext_user_cache := (ext_user_cache st0)(user_id \<mapsto> fetched),
                               ext_lookups := ext_lookups st0 @ [AuthorLookup user_id]\<rparr>)
                      | None \<Rightarrow>
                          (\<lparr>real_name = Some (U ''User '' @ user_id),
                            profile = Some \<lparr>email = None\<rparr>\<rparr>,
                           st0\<lparr>ext_lookups := ext_lookups st0 @ [AuthorLookup user_id]\<rparr>)));
              username = (case real_name ui of Some n \<Rightarrow> n | None \<Rightarrow> U ''User '' @ user_id);
              mail = (case profile ui of
                        None \<Rightarrow> []
                      | Some pr \<Rightarrow> (case email pr of Some e \<Rightarrow> e | None \<Rightarrow> []))
          in st1\<lparr>participants := participants st1 @
                   [\<lparr>p_user_id = user_id, p_name = username, p_email = mail\<rparr>]\<rparr>)"

definition ext_init :: ext_state where
  "ext_init = \<lparr>participants = [], ext_user_cache = Map.empty, processed_users = {},
               ext_lookups = []\<rparr>"

definition ext_run :: "slack_client \<Rightarrow> message list \<Rightarrow> ext_state" where
  "ext_run client messages = foldl (ext_step client) ext_init messages"

definition extract_participants_with_email :: "message list \<Rightarrow> slack_client \<Rightarrow> participant list" where
  "extract_participants_with_email messages client = participants (ext_run client messages)"

section \<open>slack\_bot\_summarizer.py: summary text to Notion blocks\<close>

text \<open>
  A Notion block as \<open>convert_summary_to_notion_blocks\<close> builds it: its type
  (\<open>heading_2\<close>, \<open>bulleted_list_item\<close>, \<open>paragraph\<close>) and the content of its one
  rich-text element.
\<close>

datatype block = Heading2 ustr | BulletedListItem ustr | Paragraph ustr

record conv_state =
  blocks :: "block list"
  current_heading :: "ustr option"
  bullet_points :: "ustr list"

text \<open>
  The blocks appended for a non-empty \<open>bullet_points\<close>: the first point, then a loop
  over the others.
\<close>

definition bullet_blocks :: "ustr list \<Rightarrow> block list" where
  "bullet_blocks bps = BulletedListItem (hd bps) # map BulletedListItem (tl bps)"

definition flush_bullets :: "conv_state \<Rightarrow> conv_state" where
  "flush_bullets st =
     (if bullet_points st \<noteq> []
      then st\<lparr>blocks := blocks st @ bullet_blocks (bullet_points st), bullet_points := []\<rparr>
      else st)"

text \<open>One iteration of the loop over \<open>summary.split("\n")\<close>.\<close>

definition conv_step :: "conv_state \<Rightarrow> ustr \<Rightarrow> conv_state" where
  "conv_step st line =
     (if startswith line (U ''##'') then
        (let st1 = flush_bullets st;
             heading_text = strip (strip_chars line (U ''# ''))
         in st1\<lparr>blocks := blocks st1 @ [Heading2 heading_text],
                current_heading := Some heading_text\<rparr>)
      else if startswith (strip line) (U ''- '') then
        st\<lparr>bullet_points := bullet_points st @ [strip (drop 2 (strip line))]\<rparr>
      else if strip line = [] then
        (let st1 = flush_bullets st
         in st1\<lparr>blocks := blocks st1 @ [Paragraph []]\<rparr>)
      else if \<not> startswith (strip line) (U ''-'') \<and> bullet_points st = [] then
        st\<lparr>blocks := blocks st @ [Paragraph (strip line)]\<rparr>
      else st)"

definition conv_init :: conv_state where
  "conv_init = \<lparr>blocks = [], current_heading = None, bullet_points = []\<rparr>"

definition conv_run :: "ustr list \<Rightarrow> conv_state" where
  "conv_run lines = foldl conv_step conv_init lines"

definition convert_summary_to_notion_blocks :: "ustr \<Rightarrow> block list" where
  "convert_summary_to_notion_blocks summary =
     blocks (flush_bullets (conv_run (split_nl summary)))"

section \<open>slack\_bot\_summarizer.py: the pipeline of one mention in a thread\<close>

text \<open>The two system prompts of \<open>generate_summary\<close> and \<open>extract_keywords\<close>.\<close>

datatype prompt = SummaryPrompt | KeywordPrompt

text \<open>
  What \<open>requests.post\<close> did: a response with its status code and the top-level
  object of its body (\<open>None\<close> when \<open>response.json()\<close> raises), or an exception.
\<close>

type_synonym json_dict = "(ustr \<times> ustr) list"

record http_response =
  status_code :: nat
  json_body :: "json_dict option"

datatype post_outcome = HttpResponse http_response | TransportError

text \<open>
  The collaborators of one request: the thread's messages, the language-model API behind
  a client, \<open>requests.post\<close> on the Notion pages endpoint (given the blocks that the
  summary contributes to the page), the two Notion settings, and whether
  \<open>float(thread_ts)\<close> succeeds.
\<close>

record collaborators =
  conversations_replies :: "message list result"
  llm_api :: "client \<Rightarrow> prompt \<Rightarrow> ustr \<Rightarrow> nat \<Rightarrow> ustr result"
  requests_post :: "block list \<Rightarrow> post_outcome"
  NOTION_API_KEY :: "ustr option"
  NOTION_DATABASE_ID :: "ustr option"
  thread_ts_is_float :: bool

text \<open>
  \<open>_generate_with_claude\<close> and \<open>_generate_with_azure_openai\<close>: the call on a client
  that is \<open>None\<close> raises AttributeError; every exception is logged and raised again.
\<close>

definition generate_with :: "collaborators \<Rightarrow> client option \<Rightarrow> prompt \<Rightarrow> ustr \<Rightarrow> nat \<Rightarrow> ustr result" where
  "generate_with env cl system_prompt content max_tokens =
     (case cl of
        None \<Rightarrow> Raise AttributeError
      | Some c \<Rightarrow> llm_api env c system_prompt content max_tokens)"

definition generate_summary :: "LLMService \<Rightarrow> collaborators \<Rightarrow> ustr \<Rightarrow> ustr result" where
  "generate_summary self env thread_text =
     (if provider self = U ''claude''
      then generate_with env (claude_client self) SummaryPrompt thread_text 1000
      else generate_with env (azure_openai_client self) SummaryPrompt thread_text 1000)"

definition extract_keywords :: "LLMService \<Rightarrow> collaborators \<Rightarrow> ustr \<Rightarrow> ustr result" where
  "extract_keywords self env summary =
     (if provider self = U ''claude''
      then generate_with env (claude_client self) KeywordPrompt summary 100
      else generate_with env (azure_openai_client self) KeywordPrompt summary 100)"

text \<open>
  \<open>save_summary_to_notion\<close>, as far as its result goes: the settings guard, the
  conversion of \<open>thread_ts\<close> (outside every \<open>try\<close> of the function), then the request.
  The properties of the page are built between the two without raising (each part that
  could raise has its own \<open>try\<close>) and do not reach the result.
\<close>

definition save_summary_to_notion :: "collaborators \<Rightarrow> ustr \<Rightarrow> json_dict option result" where
  "save_summary_to_notion env summary =
     (if \<not> truthy (NOTION_API_KEY env) \<or> \<not> truthy (NOTION_DATABASE_ID env) then Return None
      else if \<not> thread_ts_is_float env then Raise ValueError
      else
        (case requests_post env (convert_summary_to_notion_blocks summary) of
           TransportError \<Rightarrow> Return None
         | HttpResponse response \<Rightarrow>
             (if status_code response = 200
              then (case json_body response of
                      None \<Rightarrow> Return None
                    | Some body \<Rightarrow> Return (Some body))
              else Return None)))"

text \<open>
  The edit of the status message that ends the processing: the response text, or the
  error text built from the exception that the outer \<open>except\<close> caught.
\<close>

datatype status_edit = Delivered ustr | ErrorShown error

text \<open>The block \<open>if save_to_notion and NOTION_API_KEY and NOTION_DATABASE_ID: try: ...\<close>\<close>

definition notion_url_of :: "LLMService \<Rightarrow> collaborators \<Rightarrow> bool \<Rightarrow> ustr \<Rightarrow> ustr option" where
  "notion_url_of llm_service env save_to_notion summary =
     (if save_to_notion \<and> truthy (NOTION_API_KEY env) \<and> truthy (NOTION_DATABASE_ID env) then
        (case extract_keywords llm_service env summary of
           Raise e \<Rightarrow> None
         | Return keywords \<Rightarrow>
             (case save_summary_to_notion env summary of
                Raise e \<Rightarrow> None
              | Return notion_response \<Rightarrow>
                  (case notion_response of
                     None \<Rightarrow> None
                   | Some body \<Rightarrow>
                       (if body \<noteq> [] \<and> map_of body (U ''url'') \<noteq> None
                        then map_of body (U ''url'')
                        else None))))
      else None)"

text \<open>The suffix \<open>"\n\n*<{notion_url}|... Notion... >*"\<close> and the provider line.\<close>

definition saved_suffix :: "ustr \<Rightarrow> ustr" where
  "saved_suffix notion_url =
     [10, 10] @ U ''*<'' @ notion_url @
     [124, 128221, 32, 78, 111, 116, 105, 111, 110, 12395, 12418, 20445, 23384, 12375,
      12414, 12375, 12383, 62, 42]"

definition generated_by :: "LLMService \<Rightarrow> ustr" where
  "generated_by llm_service = [10, 10] @ U ''_Generated by: '' @ provider llm_service @ U ''_''"

text \<open>
  The \<open>try\<close> block of \<open>handle_app_mentions\<close> for a mention inside a thread, up to the
  edit of the status message (the Slack calls that post and edit are taken to return).
\<close>

definition process_thread :: "LLMService \<Rightarrow> collaborators \<Rightarrow> slack_client \<Rightarrow> bool \<Rightarrow> status_edit" where
  "process_thread llm_service env client save_to_notion =
     (case conversations_replies env of
        Raise e \<Rightarrow> ErrorShown e
      | Return thread_messages \<Rightarrow>
          (let thread_text = format_messages_for_llm client thread_messages in
           case generate_summary llm_service env thread_text of
             Raise e \<Rightarrow> ErrorShown e
           | Return summary \<Rightarrow>
               (let participants = extract_participants_with_email thread_messages client;
                    notion_url = notion_url_of llm_service env save_to_notion summary;
                    response_text =
                      summary @
                      (if truthy notion_url then saved_suffix (the notion_url) else []) @
                      generated_by llm_service
                in Delivered response_text)))"

section \<open>What the specification says, for comparison\<close>

text \<open>A message that has an author id and does not carry the bot flag.\<close>

definition authored :: "message \<Rightarrow> bool" where
  "authored m = (truthy (msg_user m) \<and> \<not> truthy (msg_bot_id m))"

text \<open>
  The display name of an id: the resolved \<open>real_name\<close>, or the label \<open>User <id>\<close>
  when the lookup fails or gives no name.
\<close>

definition display_name :: "slack_client \<Rightarrow> ustr \<Rightarrow> ustr" where
  "display_name client uid =
     (case client uid of
        None \<Rightarrow> U ''User '' @ uid
      | Some ui \<Rightarrow> (case real_name ui of None \<Rightarrow> U ''User '' @ uid | Some n \<Rightarrow> n))"

text \<open>The text of a message after mention processing, token removal and trimming.\<close>

definition transcript_text :: "slack_client \<Rightarrow> message \<Rightarrow> ustr" where
  "transcript_text client m =
     strip (remove_mentions
       (fst (process_mentions (case msg_text m of Some t \<Rightarrow> t | None \<Rightarrow> []) client)))"

definition transcript_line :: "slack_client \<Rightarrow> message \<Rightarrow> ustr" where
  "transcript_line client m =
     display_name client (the (msg_user m)) @ U '': '' @ transcript_text client m"

text \<open>The author ids of the authored messages, in the order of the messages.\<close>

definition author_ids :: "message list \<Rightarrow> ustr list" where
  "author_ids ms = map (\<lambda>m. the (msg_user m)) (filter authored ms)"

text \<open>
  The elements of a list in the order of their first appearance, each once
  (\<open>remdups\<close> keeps last appearances, hence the two reversals).
\<close>

definition first_occurrences :: "'a list \<Rightarrow> 'a list" where
  "first_occurrences xs = rev (remdups (rev xs))"



text \<open>The create-page call failed: a transport error, or a status other than 200.\<close>

definition post_failed :: "post_outcome \<Rightarrow> bool" where
  "post_failed out =
     (case out of
        TransportError \<Rightarrow> True
      | HttpResponse response \<Rightarrow> status_code response \<noteq> 200)"

section \<open>Loop invariants\<close>

definition cache_agrees :: "slack_client \<Rightarrow> (ustr \<rightharpoonup> user_info) \<Rightarrow> bool" where
  "cache_agrees client cache = (\<forall>uid ui. cache uid = Some ui \<longrightarrow> client uid = Some ui)"

definition ext_inv :: "ext_state \<Rightarrow> bool" where
  "ext_inv st =
     (processed_users st = set (map p_user_id (participants st))
      \<and> dom (ext_user_cache st) \<subseteq> processed_users st
      \<and> ext_lookups st = map AuthorLookup (map p_user_id (participants st)))"

definition fmt_inv :: "slack_client \<Rightarrow> fmt_state \<Rightarrow> bool" where
  "fmt_inv client st =
     (\<forall>uid. client uid \<noteq> None \<longrightarrow>
        count_list (fmt_lookups st) (AuthorLookup uid) =
          (if uid \<in> dom (fmt_user_cache st) then 1 else 0))"

section \<open>Example inputs\<close>

text \<open>An environment that holds the Anthropic key only, and the service built from it.\<close>

definition env_claude_only :: "ustr \<rightharpoonup> ustr" where
  "env_claude_only = [U ''ANTHROPIC_API_KEY'' \<mapsto> U ''sk'']"

definition svc_claude :: LLMService where
  "svc_claude =
     \<lparr>provider = U ''claude'', anthropic_api_key = Some (U ''sk''),
      azure_openai_api_key = None, azure_openai_endpoint = None,
      azure_openai_deployment = U ''gpt-4'',
      azure_openai_api_version = U ''2023-12-01-preview'',
      claude_client = Some (Anthropic (U ''sk'')), azure_openai_client = None\<rparr>"

text \<open>A Slack client that resolves \<open>U1\<close> to Alice and fails on every other id.\<close>

definition client_alice :: slack_client where
  "client_alice uid =
     (if uid = U ''U1'' then Some \<lparr>real_name = Some (U ''Alice''), profile = None\<rparr> else None)"

text \<open>A message of \<open>U1\<close> that mentions \<open>U2\<close>, and one in which \<open>U1\<close> mentions \<open>U1\<close>.\<close>

definition msg_unresolved :: message where
  "msg_unresolved =
     \<lparr>msg_user = Some (U ''U1''), msg_bot_id = None, msg_text = Some (U ''hi <@U2>''),
      msg_ts = None\<rparr>"

definition msg_self_mention :: message where
  "msg_self_mention =
     \<lparr>msg_user = Some (U ''U1''), msg_bot_id = None, msg_text = Some (U ''<@U1>''),
      msg_ts = None\<rparr>"


text \<open>
  Collaborators for which the thread has one message, the model answers \<open>"S"\<close> and the
  Notion endpoint answers with status 500.
\<close>

definition env_notion_down :: collaborators where
  "env_notion_down =
     \<lparr>conversations_replies = Return [msg_unresolved],
      llm_api = (\<lambda>c p t n. Return (U ''S'')),
      requests_post = (\<lambda>bs. HttpResponse \<lparr>status_code = 500, json_body = None\<rparr>),
      NOTION_API_KEY = Some (U ''k''),
      NOTION_DATABASE_ID = Some (U ''d''),
      thread_ts_is_float = True\<rparr>"


section \<open>Switching the provider\<close>

lemma init_env_claude_only:
  "init env_claude_only (U ''claude'') = (Return svc_claude, [InfoClaudeInitialized])"
  by (simp add: init_def env_claude_only_def svc_claude_def initialize_client_def
      environ_get_def lower_def lower_cp_def)

lemma reachable_svc_claude: "reachable svc_claude"
  by (rule reachable.constructed [OF init_env_claude_only])

lemma initialize_client_logs: "snd (snd (initialize_client self)) \<noteq> []"
  by (simp add: initialize_client_def)

lemma reachable_provider:
  "reachable self \<Longrightarrow> provider self \<in> {U ''claude'', U ''azure_openai''}"
proof (induction rule: reachable.induct)
  case (constructed env prov self lg)
  then show ?case
    by (auto simp: init_def initialize_client_def Let_def split: if_splits)
next
  case (switched self prov r self' lg)
  then show ?case
    by (auto simp: switch_provider_def initialize_client_def Let_def split: if_splits)
qed

text \<open>
  C1. The service built with the Anthropic key only is usable. Asked to switch to
  \<open>"azure_openai"\<close>, a supported name whose credentials are absent,
  \<open>switch_provider\<close> raises ValueError after it has stored the new name: the provider
  is \<open>"azure_openai"\<close>, its client is \<open>None\<close>, and the next summary raises
  AttributeError. The switch neither succeeded nor kept the previous provider active.
\<close>

theorem switch_provider_missing_credentials:
  "init env_claude_only (U ''claude'') = (Return svc_claude, [InfoClaudeInitialized])
   \<and> usable svc_claude
   \<and> switch_provider svc_claude (U ''azure_openai'') =
       (Raise ValueError, svc_claude\<lparr>provider := U ''azure_openai''\<rparr>, [ErrAzureIncomplete])
   \<and> \<not> usable (svc_claude\<lparr>provider := U ''azure_openai''\<rparr>)
   \<and> generate_summary (svc_claude\<lparr>provider := U ''azure_openai''\<rparr>) env txt
       = Raise AttributeError"
proof -
  have "switch_provider svc_claude (U ''azure_openai'') =
       (Raise ValueError, svc_claude\<lparr>provider := U ''azure_openai''\<rparr>, [ErrAzureIncomplete])"
    by (simp add: switch_provider_def svc_claude_def initialize_client_def lower_def lower_cp_def)
  moreover have "usable svc_claude"
    by (simp add: usable_def active_client_def svc_claude_def)
  moreover have "\<not> usable (svc_claude\<lparr>provider := U ''azure_openai''\<rparr>)"
    by (simp add: usable_def active_client_def svc_claude_def)
  moreover have "generate_summary (svc_claude\<lparr>provider := U ''azure_openai''\<rparr>) env txt
       = Raise AttributeError"
    by (simp add: generate_summary_def generate_with_def svc_claude_def)
  ultimately show ?thesis
    using init_env_claude_only by simp
qed

text \<open>
  C2. A name whose lowercased form is neither \<open>"claude"\<close> nor \<open>"azure_openai"\<close>
  makes \<open>switch_provider\<close> raise ValueError; the object (the provider field and both
  client fields among its fields) is as it was before the call, and the one thing
  written is the error log entry.
\<close>

theorem switch_provider_unsupported:
  "lower prov \<notin> {U ''claude'', U ''azure_openai''} \<Longrightarrow>
   switch_provider self prov = (Raise ValueError, self, [ErrUnsupportedProvider prov])"
  by (simp add: switch_provider_def)

theorem switch_provider_unsupported_witness:
  "lower (U ''GPT'') \<notin> {U ''claude'', U ''azure_openai''}
   \<and> switch_provider svc_claude (U ''GPT'') =
       (Raise ValueError, svc_claude, [ErrUnsupportedProvider (U ''GPT'')])"
proof -
  have h: "lower (U ''GPT'') \<notin> {U ''claude'', U ''azure_openai''}"
    by (simp add: lower_def lower_cp_def)
  show ?thesis
    using h switch_provider_unsupported [OF h, of svc_claude] by simp
qed

text \<open>
  C10. For a service object (built by the constructor and changed by
  \<open>switch_provider\<close> only) and a name whose lowercased form is the active provider,
  \<open>switch_provider\<close> returns the provider, leaves every field as it was and writes
  nothing to the log; \<open>_initialize_client\<close>, which logs on each of its paths, has not
  run.
\<close>

theorem switch_provider_same_noop:
  "reachable self \<Longrightarrow> lower s = provider self \<Longrightarrow>
   switch_provider self s = (Return (provider self), self, [])"
  using reachable_provider [of self] by (auto simp: switch_provider_def)

theorem switch_provider_same_noop_witness:
  "reachable svc_claude \<and> lower (U ''Claude'') = provider svc_claude
   \<and> switch_provider svc_claude (U ''Claude'') = (Return (provider svc_claude), svc_claude, [])"
proof -
  have h: "lower (U ''Claude'') = provider svc_claude"
    by (simp add: lower_def lower_cp_def svc_claude_def)
  show ?thesis
    using reachable_svc_claude h switch_provider_same_noop [OF reachable_svc_claude h] by simp
qed

section \<open>The transcript\<close>

lemma fmt_run_snoc: "fmt_run client (ms @ [m]) = fmt_step client (fmt_run client ms) m"
  by (simp add: fmt_run_def)

lemma fmt_step_lines:
  assumes "cache_agrees client (fmt_user_cache st)"
  shows "formatted_messages (fmt_step client st m) =
           formatted_messages st @
           (if authored m \<and> transcript_text client m \<noteq> [] then [transcript_line client m]
            else [])"
  using assms
  by (auto simp: fmt_step_def authored_def transcript_text_def transcript_line_def
      display_name_def cache_agrees_def Let_def split: option.splits prod.splits)

lemma fmt_step_cache:
  assumes "cache_agrees client (fmt_user_cache st)"
  shows "cache_agrees client (fmt_user_cache (fmt_step client st m))"
  using assms
  by (auto simp: fmt_step_def cache_agrees_def Let_def split: option.splits prod.splits if_splits)

lemma fmt_run_lines:
  "cache_agrees client (fmt_user_cache (fmt_run client ms)) \<and>
   formatted_messages (fmt_run client ms) =
     map (transcript_line client)
       (filter (\<lambda>m. authored m \<and> transcript_text client m \<noteq> []) ms)"
proof (induction ms rule: rev_induct)
  case Nil
  show ?case by (simp add: fmt_run_def fmt_init_def cache_agrees_def)
next
  case (snoc m ms)
  then show ?case
    by (simp add: fmt_run_snoc fmt_step_lines fmt_step_cache)
qed

text \<open>
  C7. The lines that \<open>format_messages_for_llm\<close> collects are the lines
  \<open>DisplayName: text\<close> of exactly those messages that have an author id, do not carry
  the bot flag and whose text is not empty after stripping, in the order of the
  messages; the transcript is these lines joined by a blank line. So a message without
  author id or with the bot flag contributes no line, and the order of the input is kept.
\<close>

theorem transcript_lines_in_order:
  "formatted_messages (fmt_run client ms) =
     map (transcript_line client)
       (filter (\<lambda>m. authored m \<and> transcript_text client m \<noteq> []) ms)
   \<and> format_messages_for_llm client ms =
     join [10, 10]
       (map (transcript_line client)
         (filter (\<lambda>m. authored m \<and> transcript_text client m \<noteq> []) ms))"
  using fmt_run_lines [of client ms] by (simp add: format_messages_for_llm_def)

text \<open>
  C3. \<open>U1\<close> (Alice) writes \<open>hi <@U2>\<close> and the lookup of \<open>U2\<close> fails.
  \<open>process_mentions\<close> finds the token and leaves it in the text, but the transcript line
  is \<open>Alice: hi\<close>: the substitution that follows in \<open>format_messages_for_llm\<close>
  removes every token that is still there, so the unresolved token is lost.
\<close>

theorem unresolved_mention_removed:
  "client_alice (U ''U2'') = None
   \<and> process_mentions (U ''hi <@U2>'') client_alice =
       (U ''hi <@U2>'', [MentionLookup (U ''U2'')])
   \<and> formatted_messages (fmt_run client_alice [msg_unresolved]) = [U ''Alice: hi'']
   \<and> format_messages_for_llm client_alice [msg_unresolved] = U ''Alice: hi''"
  by (simp add: format_messages_for_llm_def fmt_run_def fmt_step_def fmt_init_def
      client_alice_def msg_unresolved_def process_mentions_def match_mention_def
      startswith_def is_id_char_def strip_def isspace_def Let_def)

section \<open>The participants\<close>

lemma first_occurrences_snoc:
  "first_occurrences (xs @ [x]) =
     (if x \<in> set xs then first_occurrences xs else first_occurrences xs @ [x])"
  by (simp add: first_occurrences_def)

lemma set_first_occurrences: "set (first_occurrences xs) = set xs"
  by (simp add: first_occurrences_def)

lemma distinct_first_occurrences: "distinct (first_occurrences xs)"
  by (simp add: first_occurrences_def)

lemma ext_run_snoc: "ext_run client (ms @ [m]) = ext_step client (ext_run client ms) m"
  by (simp add: ext_run_def)

lemma ext_step_skip: "\<not> authored m \<Longrightarrow> ext_step client st m = st"
  by (auto simp: ext_step_def authored_def)

lemma ext_step_seen:
  "authored m \<Longrightarrow> the (msg_user m) \<in> processed_users st \<Longrightarrow> ext_step client st m = st"
  by (auto simp: ext_step_def authored_def Let_def)

lemma ext_step_new_ids:
  "authored m \<Longrightarrow> the (msg_user m) \<notin> processed_users st \<Longrightarrow>
   map p_user_id (participants (ext_step client st m)) =
     map p_user_id (participants st) @ [the (msg_user m)]"
  by (auto simp: ext_step_def authored_def Let_def split: option.splits prod.splits)

lemma ext_step_new_inv:
  "authored m \<Longrightarrow> the (msg_user m) \<notin> processed_users st \<Longrightarrow> ext_inv st \<Longrightarrow>
   ext_inv (ext_step client st m)"
  by (auto simp: ext_step_def authored_def ext_inv_def Let_def split: option.splits prod.splits)

lemma ext_run_ids:
  "ext_inv (ext_run client ms) \<and>
   map p_user_id (participants (ext_run client ms)) = first_occurrences (author_ids ms)"
proof (induction ms rule: rev_induct)
  case Nil
  show ?case
    by (simp add: ext_run_def ext_init_def ext_inv_def author_ids_def first_occurrences_def)
next
  case (snoc m ms)
  let ?st = "ext_run client ms"
  from snoc have inv: "ext_inv ?st"
    and ids: "map p_user_id (participants ?st) = first_occurrences (author_ids ms)" by auto
  have proc: "processed_users ?st = set (author_ids ms)"
    using inv ids by (simp add: ext_inv_def set_first_occurrences)
  show ?case
  proof (cases "authored m")
    case False
    then show ?thesis
      using inv ids by (simp add: ext_run_snoc ext_step_skip author_ids_def)
  next
    case True
    show ?thesis
    proof (cases "the (msg_user m) \<in> processed_users ?st")
      case seen: True
      then show ?thesis
        using True inv ids proc
        by (simp add: ext_run_snoc ext_step_seen author_ids_def first_occurrences_snoc)
    next
      case new: False
      then show ?thesis
        using True inv ids proc
        by (simp add: ext_run_snoc ext_step_new_ids ext_step_new_inv author_ids_def
            first_occurrences_snoc)
    qed
  qed
qed

text \<open>
  C8. The ids of the records that \<open>extract_participants_with_email\<close> returns are
  pairwise different, and they are the author ids of the authored, non-bot messages in
  the order in which each id appears first.
\<close>

theorem participants_distinct_first_appearance:
  "distinct (map p_user_id (extract_participants_with_email ms client)) \<and>
   map p_user_id (extract_participants_with_email ms client) =
     first_occurrences (author_ids ms)"
  using ext_run_ids [of client ms]
  by (simp add: extract_participants_with_email_def distinct_first_occurrences)

section \<open>Lookups of user ids\<close>

lemma count_list_mentions: "count_list (map MentionLookup xs) (AuthorLookup uid) = 0"
  by (induction xs) auto

lemma fmt_step_inv: "fmt_inv client st \<Longrightarrow> fmt_inv client (fmt_step client st m)"
  by (auto simp: fmt_step_def fmt_inv_def process_mentions_def count_list_mentions Let_def
      split: option.splits prod.splits if_splits)

lemma fmt_run_inv: "fmt_inv client (fmt_run client ms)"
proof (induction ms rule: rev_induct)
  case Nil
  show ?case by (simp add: fmt_run_def fmt_init_def fmt_inv_def)
next
  case (snoc m ms)
  then show ?case by (simp add: fmt_run_def fmt_step_inv)
qed

lemma ext_lookups_ids:
  "map lookup_id (ext_lookups (ext_run client ms)) = first_occurrences (author_ids ms)"
proof -
  have "ext_lookups (ext_run client ms) =
          map AuthorLookup (map p_user_id (participants (ext_run client ms)))"
    using ext_run_ids [of client ms] unfolding ext_inv_def by blast
  moreover have "map p_user_id (participants (ext_run client ms)) =
          first_occurrences (author_ids ms)"
    using ext_run_ids [of client ms] by blast
  ultimately have "ext_lookups (ext_run client ms) =
          map AuthorLookup (first_occurrences (author_ids ms))"
    by (simp only:)
  then show ?thesis by (simp add: comp_def)
qed

text \<open>
  C4, as the claim states it, fails: in a thread of one message in which \<open>U1\<close> mentions
  \<open>U1\<close>, \<open>format_messages_for_llm\<close> calls \<open>users_info\<close> for \<open>U1\<close> twice (once for
  the author, once in \<open>process_mentions\<close>, which has no cache), and
  \<open>extract_participants_with_email\<close>, which has a cache of its own, calls it a third
  time in the same request.
\<close>

theorem lookups_repeated_counterexample:
  "map lookup_id (fmt_lookups (fmt_run client_alice [msg_self_mention])) =
     [U ''U1'', U ''U1'']
   \<and> map lookup_id (ext_lookups (ext_run client_alice [msg_self_mention])) = [U ''U1'']"
  by (simp add: fmt_run_def fmt_step_def fmt_init_def ext_run_def ext_step_def ext_init_def
      client_alice_def msg_self_mention_def process_mentions_def match_mention_def
      startswith_def is_id_char_def replace_def Let_def)

text \<open>
  C4, amended. Within one call of \<open>extract_participants_with_email\<close>, \<open>users_info\<close> is
  called at most once for each id; within one call of \<open>format_messages_for_llm\<close>, an
  author id whose lookup succeeds is looked up as an author at most once, later messages
  of that author being served from the cache of the call.
\<close>

theorem author_lookups_cached:
  "distinct (map lookup_id (ext_lookups (ext_run client ms))) \<and>
   (client uid \<noteq> None \<longrightarrow>
      count_list (fmt_lookups (fmt_run client ms)) (AuthorLookup uid) \<le> 1)"
proof -
  have "distinct (map lookup_id (ext_lookups (ext_run client ms)))"
    by (simp add: ext_lookups_ids distinct_first_occurrences)
  moreover have "client uid \<noteq> None \<longrightarrow>
      count_list (fmt_lookups (fmt_run client ms)) (AuthorLookup uid) \<le> 1"
    using fmt_run_inv [of client ms] by (simp add: fmt_inv_def)
  ultimately show ?thesis by simp
qed

theorem author_lookups_cached_witness:
  "client_alice (U ''U1'') \<noteq> None
   \<and> distinct (map lookup_id (ext_lookups (ext_run client_alice [msg_unresolved, msg_unresolved])))
   \<and> count_list (fmt_lookups (fmt_run client_alice [msg_unresolved, msg_unresolved]))
        (AuthorLookup (U ''U1'')) \<le> 1"
proof -
  have h: "client_alice (U ''U1'') \<noteq> None"
    by (simp add: client_alice_def)
  show ?thesis
    using h author_lookups_cached [of client_alice "[msg_unresolved, msg_unresolved]" "U ''U1''"]
    by simp
qed

section \<open>Summary text to blocks\<close>







lemma startswith_dash: "startswith s (U ''- '') \<Longrightarrow> startswith s (U ''-'')"
  by (cases s) (auto simp: startswith_def)

text \<open>
  C5, as the claim states it, fails: the line \<open>-x\<close> is not blank, does not start with
  \<open>##\<close> and does not start with \<open>"- "\<close>, no bullets are being accumulated, and yet no
  block is emitted for it.
\<close>

theorem dash_line_counterexample:
  "strip (U ''-x'') \<noteq> []
   \<and> \<not> startswith (U ''-x'') (U ''##'')
   \<and> \<not> startswith (U ''-x'') (U ''- '')
   \<and> bullet_points conv_init = []
   \<and> conv_step conv_init (U ''-x'') = conv_init
   \<and> convert_summary_to_notion_blocks (U ''-x'') = []"
  by (simp add: convert_summary_to_notion_blocks_def conv_run_def flush_bullets_def
      conv_init_def conv_step_def strip_def isspace_def startswith_def)

text \<open>
  C5, amended. For a line that is not blank, does not start with \<open>##\<close> and whose
  trimmed text does not start with \<open>-\<close>: when no bullets are being accumulated the step
  appends exactly one paragraph block holding the trimmed line and changes nothing else;
  when bullets are being accumulated the step changes nothing, so the line gives no block.
\<close>

theorem other_line_paragraph:
  "strip l \<noteq> [] \<Longrightarrow> \<not> startswith l (U ''##'') \<Longrightarrow> \<not> startswith (strip l) (U ''-'') \<Longrightarrow>
   conv_step st l =
     (if bullet_points st = [] then st\<lparr>blocks := blocks st @ [Paragraph (strip l)]\<rparr> else st)"
  using startswith_dash [of "strip l"] by (auto simp: conv_step_def)

theorem other_line_paragraph_witness:
  "strip (U '' note '') \<noteq> []
   \<and> \<not> startswith (U '' note '') (U ''##'')
   \<and> \<not> startswith (strip (U '' note '')) (U ''-'')
   \<and> conv_step conv_init (U '' note '') = conv_init\<lparr>blocks := [Paragraph (U ''note'')]\<rparr>"
proof -
  have s: "strip (U '' note '') = U ''note''"
    by (simp add: strip_def isspace_def)
  have h1: "strip (U '' note '') \<noteq> []"
    by (simp add: strip_def isspace_def)
  have h2: "\<not> startswith (U '' note '') (U ''##'')"
    by (simp add: startswith_def)
  have h3: "\<not> startswith (strip (U '' note '')) (U ''-'')"
    by (simp add: strip_def isspace_def startswith_def)
  have "conv_step conv_init (U '' note '') =
          conv_init\<lparr>blocks := blocks conv_init @ [Paragraph (strip (U '' note ''))]\<rparr>"
    using other_line_paragraph [OF h1 h2 h3, of conv_init] by (simp add: conv_init_def)
  then have "conv_step conv_init (U '' note '') = conv_init\<lparr>blocks := [Paragraph (U ''note'')]\<rparr>"
    by (simp only: s) (simp add: conv_init_def)
  then show ?thesis using h1 h2 h3 by blast
qed



section \<open>The pipeline when the page cannot be created\<close>

lemma save_when_post_failed:
  "post_failed (requests_post env (convert_summary_to_notion_blocks summary)) \<Longrightarrow>
   save_summary_to_notion env summary = Return None
   \<or> save_summary_to_notion env summary = Raise ValueError"
  by (auto simp: save_summary_to_notion_def post_failed_def split: post_outcome.splits)

lemma notion_url_when_post_failed:
  "post_failed (requests_post env (convert_summary_to_notion_blocks summary)) \<Longrightarrow>
   notion_url_of llm_service env save_to_notion summary = None"
  using save_when_post_failed [of env summary]
  by (auto simp: notion_url_of_def split: result.splits)

text \<open>
  C9. When the thread was fetched and the summary generated, and the create-page call
  ends in a transport error or a status other than 200, the status message is edited to
  the summary followed by the provider line only: the summary is delivered, the
  saved-to-store link is not appended, and the failure does not end the processing in
  the error text.
\<close>

theorem summary_delivered_when_post_failed:
  "conversations_replies env = Return thread_messages \<Longrightarrow>
   generate_summary llm_service env (format_messages_for_llm client thread_messages)
     = Return summary \<Longrightarrow>
   post_failed (requests_post env (convert_summary_to_notion_blocks summary)) \<Longrightarrow>
   process_thread llm_service env client save_to_notion =
     Delivered (summary @ generated_by llm_service)"
  by (simp add: process_thread_def notion_url_when_post_failed Let_def)

theorem summary_delivered_when_post_failed_witness:
  "conversations_replies env_notion_down = Return [msg_unresolved]
   \<and> generate_summary svc_claude env_notion_down
        (format_messages_for_llm client_alice [msg_unresolved]) = Return (U ''S'')
   \<and> post_failed (requests_post env_notion_down (convert_summary_to_notion_blocks (U ''S'')))
   \<and> process_thread svc_claude env_notion_down client_alice True =
        Delivered (U ''S'' @ generated_by svc_claude)"
proof -
  have h1: "conversations_replies env_notion_down = Return [msg_unresolved]"
    by (simp add: env_notion_down_def)
  have h2: "generate_summary svc_claude env_notion_down
        (format_messages_for_llm client_alice [msg_unresolved]) = Return (U ''S'')"
    by (simp add: generate_summary_def generate_with_def svc_claude_def env_notion_down_def)
  have h3: "post_failed (requests_post env_notion_down
        (convert_summary_to_notion_blocks (U ''S'')))"
    by (simp add: post_failed_def env_notion_down_def)
  show ?thesis
    using h1 h2 h3 summary_delivered_when_post_failed [OF h1 h2 h3, of True] by blast
qed

end
